theory Spec2Isabelle
  imports Main "HOL-Library.Word"
begin

section \<open>ecpps: the component store and entity lifecycle of \<^verbatim>\<open>src/ecpps.h\<close>\<close>

text \<open>
  The header defines three layers. \<^verbatim>\<open>ComponentVector<T>\<close> keeps, for one component
  type, a dense vector of components, a map from entity id to row number and two sets of
  entity ids. \<^verbatim>\<open>ComponentManager\<close> keeps one such vector per type, keyed by
  \<^verbatim>\<open>typeid(T).name()\<close>. \<^verbatim>\<open>ECSManager\<close> owns the manager, the table of entities and
  the id allocator.

  Member functions become functions that take the object and return it updated. A member
  function that can throw returns the object as it is when the exception leaves the
  function, paired with the exception or the returned value. The diagnostic output on
  \<^verbatim>\<open>std::cout\<close> is not modelled; neither are the system lists and the table of
  special entities, which none of the functions below reads.
\<close>

subsection \<open>Identifiers and failures\<close>

text \<open>
  \<^verbatim>\<open>typedef unsigned ID;\<close> Row numbers are \<^verbatim>\<open>unsigned\<close> as well. Both are 32-bit words,
  the width of \<^verbatim>\<open>unsigned\<close> on the usual platforms: \<^verbatim>\<open>nextID++\<close> wraps around, and a
  vector size is cut to its low 32 bits when it is stored as a row number.
\<close>

type_synonym ID = "32 word"

text \<open>
  \<open>out_of_range\<close> is \<^verbatim>\<open>std::out_of_range\<close>, thrown by \<^verbatim>\<open>map::at\<close> and \<^verbatim>\<open>vector::at\<close>.
  \<open>undefined_behaviour\<close> marks the points where the C++ standard gives the program no
  meaning: \<^verbatim>\<open>vector::erase\<close> of a position past the last row, and flowing off the end
  of a function that returns a reference.
\<close>

datatype error = out_of_range | undefined_behaviour

subsection \<open>\<^verbatim>\<open>ComponentVector<T>\<close>\<close>

record 'a ComponentVector =
  indexes :: "ID \<rightharpoonup> 32 word"
  components :: "'a list"
  entities :: "ID set"
  newEntities :: "ID set"

text \<open>The default-constructed vector: all four containers empty.\<close>

definition ComponentVector_new :: "'a ComponentVector" where
  "ComponentVector_new =
     \<lparr>indexes = Map.empty, components = [], entities = {}, newEntities = {}\<rparr>"

text \<open>
  \<^verbatim>\<open>addComponent\<close>, lines 212-240. \<^verbatim>\<open>index\<close> is \<^verbatim>\<open>components.size()\<close> converted to
  \<^verbatim>\<open>unsigned\<close>. \<^verbatim>\<open>map::insert\<close> stores the pair only when the key is absent.
\<close>

definition ComponentVector_addComponent ::
    "'a ComponentVector \<Rightarrow> ID \<Rightarrow> 'a \<Rightarrow> 'a ComponentVector" where
  "ComponentVector_addComponent cv entityID component =
     (let index = (if components cv = [] then 0 else of_nat (length (components cv)))
      in cv\<lparr>indexes :=
               (case indexes cv entityID of
                  None \<Rightarrow> (indexes cv)(entityID \<mapsto> index)
                | Some _ \<Rightarrow> indexes cv),
             newEntities := insert entityID (newEntities cv),
             components := components cv @ [component]\<rparr>)"

text \<open>
  The loop that closes \<^verbatim>\<open>removeEntity\<close>, lines 255-265: it visits every entry of the
  map and rewrites the value of that entry alone, so its effect on the map is pointwise.
\<close>

definition shift_indexes :: "32 word \<Rightarrow> (ID \<rightharpoonup> 32 word) \<Rightarrow> (ID \<rightharpoonup> 32 word)" where
  "shift_indexes index m =
     (\<lambda>key. case m key of
               None \<Rightarrow> None
             | Some v \<Rightarrow> Some (if index < v then v - 1 else v))"

text \<open>\<^verbatim>\<open>components.erase(components.begin() + index)\<close> for a row that exists.\<close>

definition vector_erase :: "'a list \<Rightarrow> nat \<Rightarrow> 'a list" where
  "vector_erase xs n = take n xs @ drop (Suc n) xs"

text \<open>
  \<^verbatim>\<open>removeEntity\<close>, lines 242-266. \<^verbatim>\<open>indexes.at(entityID)\<close> throws when the key is absent,
  before anything is changed. The two sets of entity ids are not touched.
\<close>

definition ComponentVector_removeEntity ::
    "'a ComponentVector \<Rightarrow> ID \<Rightarrow> 'a ComponentVector \<times> (error + unit)" where
  "ComponentVector_removeEntity cv entityID =
     (case indexes cv entityID of
        None \<Rightarrow> (cv, Inl out_of_range)
      | Some index \<Rightarrow>
          (let cv1 = cv\<lparr>indexes := (indexes cv)(entityID := None)\<rparr>
           in if unat index < length (components cv1)
              then (cv1\<lparr>components := vector_erase (components cv1) (unat index),
                        indexes := shift_indexes index (indexes cv1)\<rparr>, Inr ())
              else (cv1, Inl undefined_behaviour)))"

text \<open>\<^verbatim>\<open>components.at(index)\<close>: bounds-checked.\<close>

definition vector_at :: "'a list \<Rightarrow> 32 word \<Rightarrow> error + 'a" where
  "vector_at xs index =
     (if unat index < length xs then Inr (xs ! unat index) else Inl out_of_range)"

text \<open>
  \<^verbatim>\<open>getComponent\<close>, lines 268-274. \<^verbatim>\<open>indexes[entityID]\<close> is \<^verbatim>\<open>map::operator[]\<close>: for
  an absent key it first stores the key with the value-initialised row number 0. The
  stored entry stays when \<^verbatim>\<open>at\<close> then throws. The reference returned is modelled by the
  component it refers to.
\<close>

definition ComponentVector_getComponent ::
    "'a ComponentVector \<Rightarrow> ID \<Rightarrow> 'a ComponentVector \<times> (error + 'a)" where
  "ComponentVector_getComponent cv entityID =
     (case indexes cv entityID of
        None \<Rightarrow>
          (let cv1 = cv\<lparr>indexes := (indexes cv)(entityID \<mapsto> 0)\<rparr>
           in (cv1, vector_at (components cv1) 0))
      | Some index \<Rightarrow> (cv, vector_at (components cv) index))"

definition ComponentVector_getComponentEntities :: "'a ComponentVector \<Rightarrow> ID set" where
  "ComponentVector_getComponentEntities cv = entities cv"

definition ComponentVector_getNewComponentEntities :: "'a ComponentVector \<Rightarrow> ID set" where
  "ComponentVector_getNewComponentEntities cv = newEntities cv"

text \<open>\<^verbatim>\<open>groupEntities\<close>, lines 286-292.\<close>

definition ComponentVector_groupEntities :: "'a ComponentVector \<Rightarrow> 'a ComponentVector" where
  "ComponentVector_groupEntities cv =
     (let cv1 = cv\<lparr>entities := entities cv \<union> newEntities cv\<rparr>
      in cv1\<lparr>newEntities := {}\<rparr>)"

subsection \<open>\<^verbatim>\<open>ComponentManager\<close>\<close>

text \<open>
  \<^verbatim>\<open>map<const char*, std::shared_ptr<IComponentVector>> componentVectors\<close>. The key is
  the address \<^verbatim>\<open>typeid(T).name()\<close>, a number; the map iterates in the order of its keys,
  so it is an association list kept sorted by key. The vectors of all component types
  hold values of one type \<open>'a\<close>, which stands for the union of the component types.
\<close>

type_synonym 'a ComponentManager = "(nat \<times> 'a ComponentVector) list"

text \<open>
  \<^verbatim>\<open>getComponentVector<T>\<close>, lines 294-307: the vector registered for the key, after
  registering a new one when there is none. The result stands for the shared pointer;
  what a caller changes through the pointer is written back with \<open>put_vector\<close>.
\<close>

definition ComponentManager_getComponentVector ::
    "'a ComponentManager \<Rightarrow> nat \<Rightarrow> 'a ComponentManager \<times> 'a ComponentVector" where
  "ComponentManager_getComponentVector componentVectors typekey =
     (case map_of componentVectors typekey of
        None \<Rightarrow>
          (insort_key fst (typekey, ComponentVector_new) componentVectors, ComponentVector_new)
      | Some cv \<Rightarrow> (componentVectors, cv))"

definition put_vector ::
    "'a ComponentManager \<Rightarrow> nat \<Rightarrow> 'a ComponentVector \<Rightarrow> 'a ComponentManager" where
  "put_vector componentVectors typekey cv =
     map (\<lambda>(key, value). if key = typekey then (key, cv) else (key, value)) componentVectors"

definition ComponentManager_addComponent ::
    "'a ComponentManager \<Rightarrow> nat \<Rightarrow> ID \<Rightarrow> 'a \<Rightarrow> 'a ComponentManager" where
  "ComponentManager_addComponent cm typekey entityID component =
     (case ComponentManager_getComponentVector cm typekey of
        (cm1, cv) \<Rightarrow>
          put_vector cm1 typekey (ComponentVector_addComponent cv entityID component))"

definition ComponentManager_getComponent ::
    "'a ComponentManager \<Rightarrow> nat \<Rightarrow> ID \<Rightarrow> 'a ComponentManager \<times> (error + 'a)" where
  "ComponentManager_getComponent cm typekey entityID =
     (case ComponentManager_getComponentVector cm typekey of
        (cm1, cv) \<Rightarrow>
          (case ComponentVector_getComponent cv entityID of
             (cv1, r) \<Rightarrow> (put_vector cm1 typekey cv1, r)))"

definition ComponentManager_getComponentEntities ::
    "'a ComponentManager \<Rightarrow> nat \<Rightarrow> 'a ComponentManager \<times> ID set" where
  "ComponentManager_getComponentEntities cm typekey =
     (case ComponentManager_getComponentVector cm typekey of
        (cm1, cv) \<Rightarrow> (cm1, ComponentVector_getComponentEntities cv))"

definition ComponentManager_getNewComponentEntities ::
    "'a ComponentManager \<Rightarrow> nat \<Rightarrow> 'a ComponentManager \<times> ID set" where
  "ComponentManager_getNewComponentEntities cm typekey =
     (case ComponentManager_getComponentVector cm typekey of
        (cm1, cv) \<Rightarrow> (cm1, ComponentVector_getNewComponentEntities cv))"

definition ComponentManager_groupEntities ::
    "'a ComponentManager \<Rightarrow> nat \<Rightarrow> 'a ComponentManager" where
  "ComponentManager_groupEntities cm typekey =
     (case ComponentManager_getComponentVector cm typekey of
        (cm1, cv) \<Rightarrow> put_vector cm1 typekey (ComponentVector_groupEntities cv))"

text \<open>
  \<^verbatim>\<open>ComponentManager::removeEntity\<close>, lines 336-342: the loop over all registered
  vectors, in key order. An exception from one vector ends the loop; the vectors visited
  before it stay changed.
\<close>

fun ComponentManager_removeEntity ::
    "'a ComponentManager \<Rightarrow> ID \<Rightarrow> 'a ComponentManager \<times> (error + unit)" where
  "ComponentManager_removeEntity [] entityID = ([], Inr ())"
| "ComponentManager_removeEntity ((key, value) # rest) entityID =
     (case ComponentVector_removeEntity value entityID of
        (value1, Inl e) \<Rightarrow> ((key, value1) # rest, Inl e)
      | (value1, Inr _) \<Rightarrow>
          (case ComponentManager_removeEntity rest entityID of
             (rest1, r) \<Rightarrow> ((key, value1) # rest1, r)))"

subsection \<open>\<^verbatim>\<open>Entity\<close> and \<^verbatim>\<open>ECSManager\<close>\<close>

text \<open>
  An \<^verbatim>\<open>Entity\<close> is its id and a reference to the manager that made it; the reference
  is the manager the functions below are applied to. \<^verbatim>\<open>Entity::init\<close> is empty.
\<close>

datatype Entity = Entity (Entity_entityID: ID)

definition getID :: "Entity \<Rightarrow> ID" where
  "getID e = Entity_entityID e"

text \<open>
  A template parameter \<^verbatim>\<open>T\<close> of the component functions: the address of its type name
  and the value of \<^verbatim>\<open>is_base_of<Component,T>::value\<close>.
\<close>

datatype tparam = TParam (typeid_name: nat) (is_base_of_Component: bool)

text \<open>
  The fields \<^verbatim>\<open>components\<close> and \<^verbatim>\<open>entities\<close> of \<^verbatim>\<open>ECSManager\<close> are named
  \<open>componentManager\<close> and \<open>entityTable\<close> here, since a \<^verbatim>\<open>ComponentVector\<close> has fields
  of the same names.
\<close>

record 'a ECSManager =
  managerID :: ID
  componentManager :: "'a ComponentManager"
  entityTable :: "ID \<rightharpoonup> Entity"
  nextID :: ID
  reusableIDs :: "ID list"

text \<open>\<^verbatim>\<open>generateEntityID\<close>, lines 478-496.\<close>

definition ECSManager_generateEntityID :: "'a ECSManager \<Rightarrow> 'a ECSManager \<times> ID" where
  "ECSManager_generateEntityID w =
     (if length (reusableIDs w) \<noteq> 0
      then (w\<lparr>reusableIDs := butlast (reusableIDs w)\<rparr>, last (reusableIDs w))
      else (w\<lparr>nextID := nextID w + 1\<rparr>, nextID w))"

text \<open>
  \<^verbatim>\<open>createEntity()\<close>, lines 353-375, at \<^verbatim>\<open>T = Entity\<close>. \<^verbatim>\<open>entities.insert\<close> keeps an
  entry that is already there, and \<^verbatim>\<open>entities.at(newID)\<close> returns the stored one.
\<close>

definition ECSManager_createEntity :: "'a ECSManager \<Rightarrow> 'a ECSManager \<times> Entity" where
  "ECSManager_createEntity w =
     (case ECSManager_generateEntityID w of
        (w1, newID) \<Rightarrow>
          (case entityTable w1 newID of
             None \<Rightarrow> (w1\<lparr>entityTable := (entityTable w1)(newID \<mapsto> Entity newID)\<rparr>,
                       Entity newID)
           | Some entity \<Rightarrow> (w1, entity)))"

text \<open>
  The constructor, lines 346-351, run on the members as their initialisers leave them:
  \<^verbatim>\<open>nextID = 0\<close> and empty containers. \<^verbatim>\<open>managerID\<close> has no initialiser and is not read
  before the constructor assigns it; it starts as 0 here.
\<close>

definition ECSManager_new :: "'a ECSManager" where
  "ECSManager_new =
     (case ECSManager_createEntity
             \<lparr>managerID = 0, componentManager = [], entityTable = Map.empty,
              nextID = 0, reusableIDs = []\<rparr> of
        (w1, thisEntity) \<Rightarrow> w1\<lparr>managerID := getID thisEntity\<rparr>)"

text \<open>\<^verbatim>\<open>destroyEntity\<close>, lines 378-390. \<^verbatim>\<open>entities.at\<close> throws for an unknown id.\<close>

definition ECSManager_destroyEntity ::
    "'a ECSManager \<Rightarrow> ID \<Rightarrow> 'a ECSManager \<times> (error + unit)" where
  "ECSManager_destroyEntity w entityID =
     (case entityTable w entityID of
        None \<Rightarrow> (w, Inl out_of_range)
      | Some toDestroy \<Rightarrow>
          (case ComponentManager_removeEntity (componentManager w) entityID of
             (cm, Inl e) \<Rightarrow> (w\<lparr>componentManager := cm\<rparr>, Inl e)
           | (cm, Inr _) \<Rightarrow>
               (w\<lparr>componentManager := cm,
                  entityTable := (entityTable w)(entityID := None),
                  reusableIDs := reusableIDs w @ [entityID]\<rparr>, Inr ())))"

text \<open>\<^verbatim>\<open>addComponent<T>(entityID, component)\<close>, lines 412-419.\<close>

definition ECSManager_addComponent ::
    "'a ECSManager \<Rightarrow> tparam \<Rightarrow> ID \<Rightarrow> 'a \<Rightarrow> 'a ECSManager" where
  "ECSManager_addComponent w T entityID component =
     (if is_base_of_Component T
      then w\<lparr>componentManager :=
               ComponentManager_addComponent (componentManager w) (typeid_name T)
                 entityID component\<rparr>
      else w)"

text \<open>\<^verbatim>\<open>addComponent<T>(component)\<close>, lines 421-424.\<close>

definition ECSManager_addComponent_self :: "'a ECSManager \<Rightarrow> tparam \<Rightarrow> 'a \<Rightarrow> 'a ECSManager" where
  "ECSManager_addComponent_self w T component =
     ECSManager_addComponent w T (managerID w) component"

text \<open>\<^verbatim>\<open>getComponent<T>(entityID)\<close> and \<^verbatim>\<open>getComponent<T>()\<close>, lines 445-453.\<close>

definition ECSManager_getComponent ::
    "'a ECSManager \<Rightarrow> tparam \<Rightarrow> ID \<Rightarrow> 'a ECSManager \<times> (error + 'a)" where
  "ECSManager_getComponent w T entityID =
     (case ComponentManager_getComponent (componentManager w) (typeid_name T) entityID of
        (cm, r) \<Rightarrow> (w\<lparr>componentManager := cm\<rparr>, r))"

definition ECSManager_getComponent_self ::
    "'a ECSManager \<Rightarrow> tparam \<Rightarrow> 'a ECSManager \<times> (error + 'a)" where
  "ECSManager_getComponent_self w T = ECSManager_getComponent w T (managerID w)"

text \<open>
  \<^verbatim>\<open>getComponentEntities<T>\<close>, lines 426-433: for a \<^verbatim>\<open>T\<close> that does not derive from
  \<^verbatim>\<open>Component\<close> control flows off the end of a function returning a reference.
  \<^verbatim>\<open>getNewComponentEntities<T>\<close> and \<^verbatim>\<open>groupEntities<T>\<close>, lines 435-443, do not test
  \<^verbatim>\<open>T\<close>.
\<close>

definition ECSManager_getComponentEntities ::
    "'a ECSManager \<Rightarrow> tparam \<Rightarrow> 'a ECSManager \<times> (error + ID set)" where
  "ECSManager_getComponentEntities w T =
     (if is_base_of_Component T
      then (case ComponentManager_getComponentEntities (componentManager w) (typeid_name T) of
              (cm, s) \<Rightarrow> (w\<lparr>componentManager := cm\<rparr>, Inr s))
      else (w, Inl undefined_behaviour))"

definition ECSManager_getNewComponentEntities ::
    "'a ECSManager \<Rightarrow> tparam \<Rightarrow> 'a ECSManager \<times> ID set" where
  "ECSManager_getNewComponentEntities w T =
     (case ComponentManager_getNewComponentEntities (componentManager w) (typeid_name T) of
        (cm, s) \<Rightarrow> (w\<lparr>componentManager := cm\<rparr>, s))"

definition ECSManager_groupEntities :: "'a ECSManager \<Rightarrow> tparam \<Rightarrow> 'a ECSManager" where
  "ECSManager_groupEntities w T =
     w\<lparr>componentManager :=
         ComponentManager_groupEntities (componentManager w) (typeid_name T)\<rparr>"

subsection \<open>Scenarios\<close>

text \<open>
  Scenario B of the specification, run on the functions above: on a world as the
  constructor leaves it, five calls of \<^verbatim>\<open>createEntity\<close> give \<open>e0\<close> to \<open>e4\<close>; \<open>e2\<close> and then
  \<open>e4\<close> are destroyed; three more entities are created. The result lists the ids of
  \<open>e0\<close> to \<open>e4\<close>, the outcomes of the two calls of \<^verbatim>\<open>destroyEntity\<close>, and the ids of the
  last three entities.
\<close>

definition scenario_B :: "ID list \<times> (error + unit) \<times> (error + unit) \<times> ID list" where
  "scenario_B =
     (case ECSManager_createEntity (ECSManager_new :: unit ECSManager) of (w1, e0) \<Rightarrow>
      case ECSManager_createEntity w1 of (w2, e1) \<Rightarrow>
      case ECSManager_createEntity w2 of (w3, e2) \<Rightarrow>
      case ECSManager_createEntity w3 of (w4, e3) \<Rightarrow>
      case ECSManager_createEntity w4 of (w5, e4) \<Rightarrow>
      case ECSManager_destroyEntity w5 (getID e2) of (w6, r1) \<Rightarrow>
      case ECSManager_destroyEntity w6 (getID e4) of (w7, r2) \<Rightarrow>
      case ECSManager_createEntity w7 of (w8, a) \<Rightarrow>
      case ECSManager_createEntity w8 of (w9, b) \<Rightarrow>
      case ECSManager_createEntity w9 of (w10, c) \<Rightarrow>
        (map getID [e0, e1, e2, e3, e4], r1, r2, map getID [a, b, c]))"

subsection \<open>Sequences of operations on one vector\<close>

text \<open>
  A caller's sequence of calls of \<^verbatim>\<open>addComponent\<close>, \<^verbatim>\<open>removeEntity\<close> and
  \<^verbatim>\<open>groupEntities\<close> on one vector. \<open>run_ops\<close> makes the calls in order; an exception
  ends the run, as it would end the caller. \<open>adds_unkeyed\<close> tells whether every
  \<^verbatim>\<open>addComponent\<close> of the run is for an id that the index map does not hold at that
  moment.
\<close>

datatype 'a vector_op = AddComponent ID 'a | RemoveEntity ID | GroupEntities

fun run_ops :: "'a ComponentVector \<Rightarrow> 'a vector_op list \<Rightarrow> 'a ComponentVector \<times> (error + unit)" where
  "run_ops cv [] = (cv, Inr ())"
| "run_ops cv (AddComponent entityID component # ops) =
     run_ops (ComponentVector_addComponent cv entityID component) ops"
| "run_ops cv (RemoveEntity entityID # ops) =
     (case ComponentVector_removeEntity cv entityID of
        (cv1, Inl e) \<Rightarrow> (cv1, Inl e)
      | (cv1, Inr _) \<Rightarrow> run_ops cv1 ops)"
| "run_ops cv (GroupEntities # ops) = run_ops (ComponentVector_groupEntities cv) ops"

fun adds_unkeyed :: "'a ComponentVector \<Rightarrow> 'a vector_op list \<Rightarrow> bool" where
  "adds_unkeyed cv [] = True"
| "adds_unkeyed cv (AddComponent entityID component # ops) =
     (indexes cv entityID = None
      \<and> adds_unkeyed (ComponentVector_addComponent cv entityID component) ops)"
| "adds_unkeyed cv (RemoveEntity entityID # ops) =
     (case ComponentVector_removeEntity cv entityID of
        (cv1, Inl e) \<Rightarrow> True
      | (cv1, Inr _) \<Rightarrow> adds_unkeyed cv1 ops)"
| "adds_unkeyed cv (GroupEntities # ops) = adds_unkeyed (ComponentVector_groupEntities cv) ops"

text \<open>
  The vector is dense: as many keys as rows, distinct keys at distinct rows, every
  row number within the vector, and every key in one of the two sets of entity ids.
\<close>

definition dense :: "'a ComponentVector \<Rightarrow> bool" where
  "dense cv \<longleftrightarrow>
     card (dom (indexes cv)) = length (components cv)
     \<and> inj_on (indexes cv) (dom (indexes cv))
     \<and> (\<forall>k v. indexes cv k = Some v \<longrightarrow> unat v < length (components cv))
     \<and> dom (indexes cv) \<subseteq> entities cv \<union> newEntities cv"

text \<open>
  Scenario A of the specification: three entities are created on a new world, each gets
  a component of one type with the payloads 0, 1 and 2, and the second entity is
  destroyed. The result lists the three ids, the vector of the type before the
  \<^verbatim>\<open>destroyEntity\<close>, its outcome, the vector after it, and what \<^verbatim>\<open>getComponent\<close> then
  returns for the third entity.
\<close>

definition scenario_A ::
    "ID list \<times> nat ComponentVector option \<times> (error + unit)
       \<times> nat ComponentVector option \<times> (error + nat)" where
  "scenario_A =
     (let Position = TParam 100 True in
      case ECSManager_createEntity (ECSManager_new :: nat ECSManager) of (w1, e0) \<Rightarrow>
      case ECSManager_createEntity w1 of (w2, e1) \<Rightarrow>
      case ECSManager_createEntity w2 of (w3, e2) \<Rightarrow>
      let w4 = ECSManager_addComponent w3 Position (getID e0) 0;
          w5 = ECSManager_addComponent w4 Position (getID e1) 1;
          w6 = ECSManager_addComponent w5 Position (getID e2) 2 in
      case ECSManager_destroyEntity w6 (getID e1) of (w7, r) \<Rightarrow>
      case ECSManager_getComponent w7 Position (getID e2) of (w8, g) \<Rightarrow>
        (map getID [e0, e1, e2],
         map_of (componentManager w6) (typeid_name Position), r,
         map_of (componentManager w7) (typeid_name Position), g))"

text \<open>
  The vector holds a component for the entity: the id is a key of the index map and its
  row number is a row of the vector.
\<close>

definition holds_entity :: "ID \<Rightarrow> 'a ComponentVector \<Rightarrow> bool" where
  "holds_entity entityID cv =
     (case indexes cv entityID of
        None \<Rightarrow> False
      | Some k \<Rightarrow> unat k < length (components cv))"

text \<open>
  A world as the constructor leaves it, then one entity created and given one component.
\<close>

definition world_with_component :: "nat ECSManager" where
  "world_with_component =
     (case ECSManager_createEntity ECSManager_new of
        (w1, e1) \<Rightarrow> ECSManager_addComponent w1 (TParam 100 True) (getID e1) 7)"

section \<open>Promotion\<close>

text \<open>
  C4. After \<^verbatim>\<open>groupEntities\<close> the set of new entities is empty and the set of entities is
  the union of the two sets before the call; calling it a second time changes nothing;
  the components and the index map come out as they went in, and the two sets that come
  out do not depend on them.
\<close>

theorem C4_groupEntities_promotes:
  "newEntities (ComponentVector_groupEntities cv) = {}
   \<and> entities (ComponentVector_groupEntities cv) = entities cv \<union> newEntities cv
   \<and> ComponentVector_groupEntities (ComponentVector_groupEntities cv)
       = ComponentVector_groupEntities cv
   \<and> components (ComponentVector_groupEntities cv) = components cv
   \<and> indexes (ComponentVector_groupEntities cv) = indexes cv
   \<and> ComponentVector_groupEntities (cv\<lparr>components := d, indexes := m\<rparr>)
       = (ComponentVector_groupEntities cv)\<lparr>components := d, indexes := m\<rparr>"
  by (simp add: ComponentVector_groupEntities_def)

section \<open>The registry\<close>

text \<open>The definitions that evaluating a run on a vector, or on a world, unfolds.\<close>

lemmas run_defs = ComponentVector_new_def ComponentVector_addComponent_def
  ComponentVector_removeEntity_def ComponentVector_groupEntities_def
  shift_indexes_def vector_erase_def

lemmas world_defs = ECSManager_new_def ECSManager_createEntity_def
  ECSManager_generateEntityID_def ECSManager_destroyEntity_def getID_def
  ECSManager_addComponent_def ComponentManager_addComponent_def
  ComponentManager_getComponentVector_def put_vector_def

lemma map_of_insort_key_fst:
  "map_of (insort_key fst (k, v) xs) = (map_of xs)(k \<mapsto> v)"
  by (induction xs) (auto simp: fun_eq_iff)

lemma map_of_put_vector:
  "map_of (put_vector cm k cv) k' =
     (if k' = k then map_option (\<lambda>_. cv) (map_of cm k) else map_of cm k')"
  by (induction cm) (auto simp: put_vector_def)

section \<open>Removing an entity that a vector does not hold\<close>

lemma removeEntity_absent:
  "indexes cv entityID = None \<Longrightarrow>
     ComponentVector_removeEntity cv entityID = (cv, Inl out_of_range)"
  by (simp add: ComponentVector_removeEntity_def)

text \<open>
  C1. The claim is that \<^verbatim>\<open>removeEntity\<close> of an id that the index map does not hold leaves
  the vector unchanged and returns normally, for one vector and for the loop over all
  registered vectors. The code leaves the vector unchanged but throws
  \<^verbatim>\<open>std::out_of_range\<close>. Evaluated here: on an empty vector; and on a world with entities
  1 and 2 where only entity 1 has a component, \<^verbatim>\<open>destroyEntity\<close> of entity 2 throws, the
  entity stays in the table and its id is not released.
\<close>

theorem C1_removeEntity_absent_throws:
  "ComponentVector_removeEntity (ComponentVector_new :: nat ComponentVector) 2
     = (ComponentVector_new, Inl out_of_range)
   \<and> (case ECSManager_createEntity (ECSManager_new :: nat ECSManager) of (w1, e1) \<Rightarrow>
       case ECSManager_createEntity w1 of (w2, e2) \<Rightarrow>
       case ECSManager_addComponent w2 (TParam 100 True) (getID e1) 7 of w3 \<Rightarrow>
         getID e1 = 1 \<and> getID e2 = 2
         \<and> ComponentManager_removeEntity (componentManager w3) (getID e2)
             = (componentManager w3, Inl out_of_range)
         \<and> ECSManager_destroyEntity w3 (getID e2) = (w3, Inl out_of_range)
         \<and> entityTable w3 (getID e2) = Some e2
         \<and> reusableIDs w3 = [])"
  by (simp add: ComponentVector_removeEntity_def ComponentVector_new_def
      ECSManager_new_def ECSManager_createEntity_def ECSManager_generateEntityID_def
      ECSManager_destroyEntity_def getID_def ECSManager_addComponent_def
      ComponentManager_addComponent_def ComponentManager_getComponentVector_def
      put_vector_def ComponentVector_addComponent_def)

section \<open>Looking up an entity that a vector does not hold\<close>

lemma getComponent_absent:
  "indexes cv entityID = None \<Longrightarrow>
     ComponentVector_getComponent cv entityID
       = (cv\<lparr>indexes := (indexes cv)(entityID \<mapsto> 0)\<rparr>, vector_at (components cv) 0)"
  by (simp add: ComponentVector_getComponent_def)

text \<open>
  C3. The claim is that \<^verbatim>\<open>getComponent\<close> of an id that the index map does not hold fails
  with a bounds failure and neither creates an entry nor returns the component of
  another entity. The code creates the entry with row number 0 in both cases evaluated
  here: on an empty vector it then throws, and on a vector that holds the component 10
  of entity 1 it returns that component for entity 2.
\<close>

theorem C3_getComponent_absent_creates:
  "ComponentVector_getComponent (ComponentVector_new :: nat ComponentVector) 2
     = (ComponentVector_new\<lparr>indexes := [2 \<mapsto> 0]\<rparr>, Inl out_of_range)
   \<and> ComponentVector_getComponent
        (ComponentVector_addComponent (ComponentVector_new :: nat ComponentVector) 1 10) 2
     = ((ComponentVector_addComponent ComponentVector_new 1 10)
           \<lparr>indexes := [1 \<mapsto> 0, 2 \<mapsto> 0]\<rparr>, Inr 10)"
  by (simp add: ComponentVector_getComponent_def ComponentVector_new_def vector_at_def
      ComponentVector_addComponent_def)

section \<open>The id allocator\<close>

lemma removeEntity_held:
  "holds_entity entityID cv \<Longrightarrow> snd (ComponentVector_removeEntity cv entityID) = Inr ()"
  by (auto simp: holds_entity_def ComponentVector_removeEntity_def split: option.splits)

lemma fan_out_returns:
  "list_all (\<lambda>(key, value). holds_entity entityID value) cm \<Longrightarrow>
     snd (ComponentManager_removeEntity cm entityID) = Inr ()"
proof (induction cm)
  case Nil
  then show ?case by simp
next
  case (Cons p cm)
  obtain key cv where p: "p = (key, cv)" by (cases p)
  from Cons.prems p have "snd (ComponentVector_removeEntity cv entityID) = Inr ()"
    by (simp add: removeEntity_held)
  moreover from Cons have "snd (ComponentManager_removeEntity cm entityID) = Inr ()"
    by simp
  ultimately show ?case
    unfolding p by (auto split: prod.splits sum.splits)
qed

lemma destroyEntity_returns:
  assumes "entityTable w entityID \<noteq> None"
    and "snd (ComponentManager_removeEntity (componentManager w) entityID) = Inr ()"
  shows "ECSManager_destroyEntity w entityID =
      (w\<lparr>componentManager := fst (ComponentManager_removeEntity (componentManager w) entityID),
         entityTable := (entityTable w)(entityID := None),
         reusableIDs := reusableIDs w @ [entityID]\<rparr>, Inr ())"
  using assms
  by (auto simp: ECSManager_destroyEntity_def split: option.splits prod.splits sum.splits)

text \<open>
  C5. \<^verbatim>\<open>generateEntityID\<close> returns the last id of the reuse pool and removes it when the
  pool is not empty; otherwise it returns \<^verbatim>\<open>nextID\<close> and increments it.
  \<^verbatim>\<open>destroyEntity\<close> of an id that is in the entity table, when the loop over the
  registered vectors returns, returns with the id appended to the pool; the loop returns
  when every registered vector holds a component for the entity. A call of
  \<^verbatim>\<open>destroyEntity\<close> that has returned has appended the id and left \<^verbatim>\<open>nextID\<close> as it was,
  so the id is the one the next allocation returns.
\<close>

theorem C5_allocate_release:
  "(reusableIDs w = pool @ [x] \<longrightarrow>
      ECSManager_generateEntityID w = (w\<lparr>reusableIDs := pool\<rparr>, x))
   \<and> (reusableIDs w = [] \<longrightarrow>
      ECSManager_generateEntityID w = (w\<lparr>nextID := nextID w + 1\<rparr>, nextID w))
   \<and> (ECSManager_destroyEntity w entityID = (w', Inr ()) \<longrightarrow>
      reusableIDs w' = reusableIDs w @ [entityID] \<and> nextID w' = nextID w
      \<and> snd (ECSManager_generateEntityID w') = entityID)
   \<and> (entityTable w entityID \<noteq> None
       \<and> snd (ComponentManager_removeEntity (componentManager w) entityID) = Inr () \<longrightarrow>
      ECSManager_destroyEntity w entityID =
        (w\<lparr>componentManager :=
             fst (ComponentManager_removeEntity (componentManager w) entityID),
           entityTable := (entityTable w)(entityID := None),
           reusableIDs := reusableIDs w @ [entityID]\<rparr>, Inr ()))
   \<and> (entityTable w entityID \<noteq> None
       \<and> list_all (\<lambda>(key, value). holds_entity entityID value) (componentManager w) \<longrightarrow>
      snd (ECSManager_destroyEntity w entityID) = Inr ()
      \<and> reusableIDs (fst (ECSManager_destroyEntity w entityID)) = reusableIDs w @ [entityID]
      \<and> snd (ECSManager_generateEntityID (fst (ECSManager_destroyEntity w entityID)))
          = entityID)"
proof (intro conjI impI)
  show "ECSManager_generateEntityID w = (w\<lparr>reusableIDs := pool\<rparr>, x)"
    if "reusableIDs w = pool @ [x]"
    using that by (simp add: ECSManager_generateEntityID_def)
  show "ECSManager_generateEntityID w = (w\<lparr>nextID := nextID w + 1\<rparr>, nextID w)"
    if "reusableIDs w = []"
    using that by (simp add: ECSManager_generateEntityID_def)
  assume d: "ECSManager_destroyEntity w entityID = (w', Inr ())"
  then show "reusableIDs w' = reusableIDs w @ [entityID]" and "nextID w' = nextID w"
    by (auto simp: ECSManager_destroyEntity_def split: option.splits prod.splits sum.splits)
  then show "snd (ECSManager_generateEntityID w') = entityID"
    by (simp add: ECSManager_generateEntityID_def)
next
  assume "entityTable w entityID \<noteq> None
    \<and> snd (ComponentManager_removeEntity (componentManager w) entityID) = Inr ()"
  then show "ECSManager_destroyEntity w entityID =
        (w\<lparr>componentManager :=
             fst (ComponentManager_removeEntity (componentManager w) entityID),
           entityTable := (entityTable w)(entityID := None),
           reusableIDs := reusableIDs w @ [entityID]\<rparr>, Inr ())"
    by (simp add: destroyEntity_returns)
next
  assume a: "entityTable w entityID \<noteq> None
    \<and> list_all (\<lambda>(key, value). holds_entity entityID value) (componentManager w)"
  then have d: "ECSManager_destroyEntity w entityID =
        (w\<lparr>componentManager :=
             fst (ComponentManager_removeEntity (componentManager w) entityID),
           entityTable := (entityTable w)(entityID := None),
           reusableIDs := reusableIDs w @ [entityID]\<rparr>, Inr ())"
    by (simp add: destroyEntity_returns fan_out_returns)
  show "snd (ECSManager_destroyEntity w entityID) = Inr ()"
    and "reusableIDs (fst (ECSManager_destroyEntity w entityID)) = reusableIDs w @ [entityID]"
    and "snd (ECSManager_generateEntityID (fst (ECSManager_destroyEntity w entityID)))
          = entityID"
    by (simp_all add: d ECSManager_generateEntityID_def)
qed

theorem C5_allocate_release_witness:
  "reusableIDs (ECSManager_new :: nat ECSManager) = []
   \<and> ECSManager_generateEntityID (ECSManager_new :: nat ECSManager)
       = (ECSManager_new\<lparr>nextID := 2\<rparr>, 1)
   \<and> entityTable world_with_component 1 \<noteq> None
   \<and> map (\<lambda>(key, value). (key, indexes value 1, components value))
        (componentManager world_with_component) = [(100, Some 0, [7])]
   \<and> list_all (\<lambda>(key, value). holds_entity 1 value) (componentManager world_with_component)
   \<and> snd (ECSManager_destroyEntity world_with_component 1) = Inr ()
   \<and> reusableIDs (fst (ECSManager_destroyEntity world_with_component 1)) = [] @ [1]
   \<and> ECSManager_generateEntityID (fst (ECSManager_destroyEntity world_with_component 1))
       = ((fst (ECSManager_destroyEntity world_with_component 1))\<lparr>reusableIDs := []\<rparr>, 1)"
proof -
  let ?w = "world_with_component"
  have t: "entityTable ?w 1 \<noteq> None"
    by (simp add: world_with_component_def world_defs)
  have c: "map (\<lambda>(key, value). (key, indexes value 1, components value))
        (componentManager ?w) = [(100, Some 0, [7])]"
    by (simp add: world_with_component_def world_defs run_defs)
  have h: "list_all (\<lambda>(key, value). holds_entity 1 value) (componentManager ?w)"
    by (simp add: world_with_component_def world_defs run_defs holds_entity_def)
  have p: "reusableIDs ?w = []"
    by (simp add: world_with_component_def world_defs)
  from C5_allocate_release [where w = ?w and entityID = 1, THEN conjunct2, THEN conjunct2,
      THEN conjunct2, THEN conjunct2, rule_format, OF conjI [OF t h]]
  have d: "snd (ECSManager_destroyEntity ?w 1) = Inr ()"
    and r: "reusableIDs (fst (ECSManager_destroyEntity ?w 1)) = [] @ [1]"
    by (simp_all add: p)
  from C5_allocate_release [where w = "fst (ECSManager_destroyEntity ?w 1)"
      and pool = "[]" and x = 1, THEN conjunct1, rule_format, OF r]
  have g: "ECSManager_generateEntityID (fst (ECSManager_destroyEntity ?w 1))
       = ((fst (ECSManager_destroyEntity ?w 1))\<lparr>reusableIDs := []\<rparr>, 1)" .
  have e: "reusableIDs (ECSManager_new :: nat ECSManager) = []"
    by (simp add: world_defs)
  from C5_allocate_release [where w = "ECSManager_new :: nat ECSManager",
      THEN conjunct2, THEN conjunct1, rule_format, OF e]
  have n: "ECSManager_generateEntityID (ECSManager_new :: nat ECSManager)
       = (ECSManager_new\<lparr>nextID := 2\<rparr>, 1)"
    by (simp add: world_defs)
  show ?thesis using e n t c h d r g by blast
qed

text \<open>
  C6. The claim is that in scenario B the three entities created last get the ids 4, 2
  and 5. The constructor has taken id 0 for the world itself, so \<open>e0\<close> to \<open>e4\<close> have the
  ids 1 to 5, and the code returns the id of \<open>e4\<close>, then the id of \<open>e2\<close>, then the first
  id never allocated: 5, 3 and 6.
\<close>

theorem C6_scenario_B:
  "scenario_B = ([1, 2, 3, 4, 5], Inr (), Inr (), [5, 3, 6])"
  by (simp add: scenario_B_def ECSManager_new_def ECSManager_createEntity_def
      ECSManager_generateEntityID_def ECSManager_destroyEntity_def getID_def)

theorem C6_scenario_B_counterexample:
  "snd (snd (snd scenario_B)) \<noteq> [4, 2, 5]"
  by (simp add: scenario_B_def ECSManager_new_def ECSManager_createEntity_def
      ECSManager_generateEntityID_def ECSManager_destroyEntity_def getID_def)

section \<open>Lazy registration\<close>

text \<open>
  C10. For a component type with no registered vector, \<^verbatim>\<open>getComponentEntities<T>\<close> and
  \<^verbatim>\<open>getNewComponentEntities<T>\<close> return the empty set without failing; the world that
  comes out has a new empty vector registered for the type and every other registration
  as before; asking again returns the empty set and changes nothing.
\<close>

theorem C10_query_registers_empty_vector:
  assumes "is_base_of_Component T"
    and "map_of (componentManager w) (typeid_name T) = None"
    and "w' = w\<lparr>componentManager :=
                  insort_key fst (typeid_name T, ComponentVector_new) (componentManager w)\<rparr>"
  shows "ECSManager_getComponentEntities w T = (w', Inr {})
    \<and> ECSManager_getNewComponentEntities w T = (w', {})
    \<and> map_of (componentManager w') = (map_of (componentManager w))
         (typeid_name T \<mapsto> ComponentVector_new)
    \<and> ECSManager_getComponentEntities w' T = (w', Inr {})
    \<and> ECSManager_getNewComponentEntities w' T = (w', {})"
  using assms
  by (simp add: ECSManager_getComponentEntities_def ECSManager_getNewComponentEntities_def
      ComponentManager_getComponentEntities_def ComponentManager_getNewComponentEntities_def
      ComponentManager_getComponentVector_def map_of_insort_key_fst
      ComponentVector_getComponentEntities_def ComponentVector_getNewComponentEntities_def
      ComponentVector_new_def)

theorem C10_query_registers_empty_vector_witness:
  "is_base_of_Component (TParam 100 True)
   \<and> map_of (componentManager (ECSManager_new :: nat ECSManager))
        (typeid_name (TParam 100 True)) = None
   \<and> ECSManager_getComponentEntities (ECSManager_new :: nat ECSManager) (TParam 100 True)
       = (ECSManager_new\<lparr>componentManager := [(100, ComponentVector_new)]\<rparr>, Inr {})
   \<and> ECSManager_getNewComponentEntities (ECSManager_new :: nat ECSManager) (TParam 100 True)
       = (ECSManager_new\<lparr>componentManager := [(100, ComponentVector_new)]\<rparr>, {})"
  using C10_query_registers_empty_vector [where T = "TParam 100 True"
      and w = "ECSManager_new :: nat ECSManager"
      and w' = "ECSManager_new\<lparr>componentManager := [(100, ComponentVector_new)]\<rparr>"]
  by (simp add: ECSManager_new_def ECSManager_createEntity_def
      ECSManager_generateEntityID_def getID_def)

section \<open>Density of a vector\<close>

lemma dense_new: "dense ComponentVector_new"
  by (simp add: dense_def ComponentVector_new_def)

lemma dense_length_bound:
  assumes "dense cv" and "indexes cv entityID = None"
  shows "length (components cv) < 2 ^ 32"
proof -
  have "dom (indexes cv) \<subset> (UNIV :: ID set)"
    using assms(2) by auto
  then have "card (dom (indexes cv)) < card (UNIV :: ID set)"
    by (intro psubset_card_mono) simp_all
  then show ?thesis
    using assms(1) by (simp add: dense_def card_word)
qed

lemma unat_of_nat_length:
  "length xs < 2 ^ 32 \<Longrightarrow> unat (of_nat (length xs) :: 32 word) = length xs"
  by (simp add: unat_of_nat)

lemma dense_addComponent:
  assumes "dense cv" and "indexes cv entityID = None"
  shows "dense (ComponentVector_addComponent cv entityID component)"
proof -
  let ?n = "length (components cv)"
  let ?i = "of_nat ?n :: 32 word"
  have n: "unat ?i = ?n"
    using dense_length_bound [OF assms] by (rule unat_of_nat_length)
  have idx: "(if components cv = [] then 0 else ?i) = ?i" by simp
  have bound: "\<And>k v. indexes cv k = Some v \<Longrightarrow> unat v < ?n"
    using assms(1) by (simp add: dense_def)
  have fresh: "\<And>k. indexes cv k \<noteq> Some ?i"
    using bound n by fastforce
  have inj: "inj_on (indexes cv) (dom (indexes cv))"
    using assms(1) by (simp add: dense_def)
  have notin: "entityID \<notin> dom (indexes cv)" using assms(2) by auto
  have "inj_on ((indexes cv)(entityID \<mapsto> ?i)) (insert entityID (dom (indexes cv)))"
    using inj notin fresh by (auto simp: inj_on_def)
  moreover have "card (insert entityID (dom (indexes cv))) = Suc ?n"
    using assms(1) notin by (simp add: dense_def)
  moreover have "\<And>k v. ((indexes cv)(entityID \<mapsto> ?i)) k = Some v \<Longrightarrow> unat v < Suc ?n"
    using bound n by (auto simp: less_Suc_eq split: if_splits)
  moreover have "insert entityID (dom (indexes cv)) \<subseteq> entities cv \<union> insert entityID (newEntities cv)"
    using assms(1) by (auto simp: dense_def)
  ultimately show ?thesis
    using assms(2) unfolding dense_def ComponentVector_addComponent_def Let_def idx
    by simp
qed

lemma dense_groupEntities: "dense cv \<Longrightarrow> dense (ComponentVector_groupEntities cv)"
  by (auto simp: dense_def ComponentVector_groupEntities_def)

lemma dom_shift_indexes: "dom (shift_indexes k m) = dom m"
  by (auto simp: shift_indexes_def split: option.splits)

lemma shift_value_unat:
  "unat (if k < v then v - 1 else v) = (if unat k < unat v then unat v - 1 else unat v)"
  for k v :: "32 word"
  by (cases "v = 0") (auto simp: word_less_nat_alt unat_minus_one)

lemma dense_removeEntity:
  assumes "dense cv" and "ComponentVector_removeEntity cv entityID = (cv', r)"
  shows "dense cv' \<and> r \<noteq> Inl undefined_behaviour"
proof (cases "indexes cv entityID")
  case None
  then show ?thesis using assms by (auto simp: ComponentVector_removeEntity_def)
next
  case (Some k)
  let ?n = "length (components cv)"
  let ?m = "(indexes cv)(entityID := None)"
  have bound: "\<And>j v. indexes cv j = Some v \<Longrightarrow> unat v < ?n"
    using assms(1) by (simp add: dense_def)
  have inj: "inj_on (indexes cv) (dom (indexes cv))"
    using assms(1) by (simp add: dense_def)
  have k: "unat k < ?n" using bound Some by blast
  have cv': "cv' = cv\<lparr>indexes := shift_indexes k ?m,
                      components := vector_erase (components cv) (unat k)\<rparr>"
    and r: "r = Inr ()"
    using assms(2) Some k by (auto simp: ComponentVector_removeEntity_def Let_def)
  have other: "\<And>j v. ?m j = Some v \<Longrightarrow> v \<noteq> k"
  proof
    fix j v assume a: "?m j = Some v" "v = k"
    then have "j \<noteq> entityID" "indexes cv j = indexes cv entityID"
      using Some by (auto split: if_splits)
    moreover have "j \<in> dom (indexes cv)" "entityID \<in> dom (indexes cv)"
      using a Some by (auto split: if_splits)
    ultimately show False using inj by (auto simp: inj_on_def)
  qed
  have len: "length (vector_erase (components cv) (unat k)) = ?n - 1"
    using k by (simp add: vector_erase_def)
  have card: "card (dom (shift_indexes k ?m)) = ?n - 1"
    using assms(1) Some by (simp add: dom_shift_indexes dense_def domI)
  have b': "\<And>j v. shift_indexes k ?m j = Some v \<Longrightarrow> unat v < ?n - 1"
  proof -
    fix j v assume a: "shift_indexes k ?m j = Some v"
    then obtain u where u: "?m j = Some u" "v = (if k < u then u - 1 else u)"
      by (auto simp: shift_indexes_def split: option.splits)
    have "unat u < ?n" using u(1) bound by (auto split: if_splits)
    moreover have "unat u \<noteq> unat k" using other [OF u(1)] by (simp add: word_unat_eq_iff)
    ultimately show "unat v < ?n - 1"
      using k unfolding u(2) shift_value_unat by auto
  qed
  have inj': "inj_on (shift_indexes k ?m) (dom (shift_indexes k ?m))"
  proof (rule inj_onI)
    fix a b assume a: "a \<in> dom (shift_indexes k ?m)" "b \<in> dom (shift_indexes k ?m)"
      "shift_indexes k ?m a = shift_indexes k ?m b"
    then obtain u w where u: "?m a = Some u" and w: "?m b = Some w"
      by (auto simp: dom_shift_indexes)
    have "unat (if k < u then u - 1 else u) = unat (if k < w then w - 1 else w)"
      using a(3) u w by (simp add: shift_indexes_def)
    moreover have "unat u \<noteq> unat k" "unat w \<noteq> unat k"
      using other [OF u] other [OF w] by (simp_all add: word_unat_eq_iff)
    ultimately have "unat u = unat w"
      unfolding shift_value_unat by (auto split: if_splits)
    then have "indexes cv a = indexes cv b"
      using u w by (auto simp: word_unat_eq_iff split: if_splits)
    moreover have "a \<in> dom (indexes cv)" "b \<in> dom (indexes cv)"
      using u w by (auto split: if_splits)
    ultimately show "a = b" using inj by (auto simp: inj_on_def)
  qed
  have sub: "dom (shift_indexes k ?m) \<subseteq> entities cv \<union> newEntities cv"
    using assms(1) by (auto simp: dom_shift_indexes dense_def)
  show ?thesis
    unfolding cv' r dense_def using len card b' inj' sub by simp
qed

lemma dense_run_ops:
  "dense cv \<Longrightarrow> adds_unkeyed cv ops \<Longrightarrow>
     dense (fst (run_ops cv ops)) \<and> snd (run_ops cv ops) \<noteq> Inl undefined_behaviour"
proof (induction cv ops rule: run_ops.induct)
  case (1 cv)
  then show ?case by simp
next
  case (2 cv entityID component ops)
  then show ?case by (simp add: dense_addComponent)
next
  case (3 cv entityID ops)
  obtain cv1 r where rm: "ComponentVector_removeEntity cv entityID = (cv1, r)"
    by (cases "ComponentVector_removeEntity cv entityID")
  from dense_removeEntity [OF "3.prems"(1) rm] have d: "dense cv1" and u: "r \<noteq> Inl undefined_behaviour"
    by simp_all
  show ?case
  proof (cases r)
    case (Inl e)
    then show ?thesis using rm d u by simp
  next
    case (Inr x)
    then show ?thesis using rm d "3.IH" "3.prems"(2) by auto
  qed
next
  case (4 cv ops)
  then show ?case by (simp add: dense_groupEntities)
qed

text \<open>
  What the code keeps, on a run that starts from the empty vector and never adds for an
  id that is already a key: the vector has as many rows as the index map has keys,
  distinct keys have distinct row numbers, every row number is a row of the vector,
  every key is in one of the two sets, and no call has undefined behaviour.
\<close>

lemma dense_after_ops:
  assumes "adds_unkeyed ComponentVector_new ops"
    and "run_ops ComponentVector_new ops = (cv, r)"
  shows "length (components cv) = card (dom (indexes cv))
    \<and> inj_on (indexes cv) (dom (indexes cv))
    \<and> (\<forall>k v. indexes cv k = Some v \<longrightarrow> unat v < length (components cv))
    \<and> dom (indexes cv) \<subseteq> entities cv \<union> newEntities cv
    \<and> r \<noteq> Inl undefined_behaviour"
  using dense_run_ops [OF dense_new assms(1)] assms(2) by (simp add: dense_def)

text \<open>
  C2. The claim is that after any sequence of \<^verbatim>\<open>addComponent\<close>, \<^verbatim>\<open>removeEntity\<close> and
  \<^verbatim>\<open>groupEntities\<close> the vector has as many rows as the index map has keys and as the two
  sets of entity ids have members together, that the two sets are disjoint, and that
  \<^verbatim>\<open>removeEntity\<close> takes the id out of both sets. The code erases the id from the index
  map and its row from the components, and leaves both sets as they are. Evaluated here:
  after a component is added for entity 1 and the entity is removed, the vector has no
  row and no key, and the set of new entities is still \<open>{1}\<close>; after add, group,
  remove and a new add for entity 1, the id is in both sets.
\<close>

theorem C2_removeEntity_leaves_entity_sets:
  "ComponentVector_removeEntity
      (ComponentVector_addComponent (ComponentVector_new :: nat ComponentVector) 1 10) 1
     = (\<lparr>indexes = Map.empty, components = [], entities = {}, newEntities = {1}\<rparr>, Inr ())
   \<and> ComponentVector_addComponent
        (fst (ComponentVector_removeEntity
           (ComponentVector_groupEntities
              (ComponentVector_addComponent (ComponentVector_new :: nat ComponentVector) 1 10))
           1)) 1 11
     = \<lparr>indexes = [1 \<mapsto> 0], components = [11], entities = {1}, newEntities = {1}\<rparr>"
  by (auto simp: run_defs fun_eq_iff)

section \<open>Compaction\<close>

text \<open>
  C8. The claim is made for every state of the vector and every id that the index map
  holds. It holds when the row number \<open>k\<close> of the id is a row of the vector:
  \<^verbatim>\<open>removeEntity\<close> then returns normally, the components are those before without row
  \<open>k\<close>, the id is no longer a key, and every other key keeps its row number when that is
  at most \<open>k\<close> and has it decremented by one when it is greater. In scenario A the
  entities have the ids 1, 2 and 3; after entity 2 is destroyed the components are 0 and
  2, the index map sends 1 to 0 and 3 to 1, and \<^verbatim>\<open>getComponent\<close> of entity 3 returns 2.
  When the row number is not a row of the vector, \<^verbatim>\<open>erase\<close> is called on a position
  past the last row; \<^verbatim>\<open>getComponent\<close> of an absent id leaves such states behind.
\<close>

theorem C8_removeEntity_compacts:
  "(\<forall>(cv :: 'a ComponentVector) entityID k.
      indexes cv entityID = Some k \<and> unat k < length (components cv) \<longrightarrow>
        snd (ComponentVector_removeEntity cv entityID) = Inr ()
        \<and> components (fst (ComponentVector_removeEntity cv entityID))
            = take (unat k) (components cv) @ drop (Suc (unat k)) (components cv)
        \<and> indexes (fst (ComponentVector_removeEntity cv entityID)) entityID = None
        \<and> (\<forall>other. other \<noteq> entityID \<longrightarrow>
              indexes (fst (ComponentVector_removeEntity cv entityID)) other
                = map_option (\<lambda>v. if k < v then v - 1 else v) (indexes cv other)))
   \<and> scenario_A =
       ([1, 2, 3],
        Some \<lparr>indexes = [1 \<mapsto> 0, 2 \<mapsto> 1, 3 \<mapsto> 2], components = [0, 1, 2],
              entities = {}, newEntities = {1, 2, 3}\<rparr>,
        Inr (),
        Some \<lparr>indexes = [1 \<mapsto> 0, 3 \<mapsto> 1], components = [0, 2],
              entities = {}, newEntities = {1, 2, 3}\<rparr>,
        Inr 2)"
proof (intro conjI allI impI)
  fix cv :: "'a ComponentVector" and entityID k
  assume a: "indexes cv entityID = Some k \<and> unat k < length (components cv)"
  then have rm: "ComponentVector_removeEntity cv entityID =
      (cv\<lparr>indexes := shift_indexes k ((indexes cv)(entityID := None)),
          components := vector_erase (components cv) (unat k)\<rparr>, Inr ())"
    by (simp add: ComponentVector_removeEntity_def)
  show "snd (ComponentVector_removeEntity cv entityID) = Inr ()"
    by (simp add: rm)
  show "components (fst (ComponentVector_removeEntity cv entityID))
          = take (unat k) (components cv) @ drop (Suc (unat k)) (components cv)"
    by (simp add: rm vector_erase_def)
  show "indexes (fst (ComponentVector_removeEntity cv entityID)) entityID = None"
    by (simp add: rm shift_indexes_def)
  fix other assume "other \<noteq> entityID"
  then show "indexes (fst (ComponentVector_removeEntity cv entityID)) other
                = map_option (\<lambda>v. if k < v then v - 1 else v) (indexes cv other)"
    by (simp add: rm shift_indexes_def split: option.splits)
next
  show "scenario_A =
       ([1, 2, 3],
        Some \<lparr>indexes = [1 \<mapsto> 0, 2 \<mapsto> 1, 3 \<mapsto> 2], components = [0, 1, 2],
              entities = {}, newEntities = {1, 2, 3}\<rparr>,
        Inr (),
        Some \<lparr>indexes = [1 \<mapsto> 0, 3 \<mapsto> 1], components = [0, 2],
              entities = {}, newEntities = {1, 2, 3}\<rparr>,
        Inr 2)"
    by (simp add: scenario_A_def run_defs ECSManager_new_def ECSManager_createEntity_def
        ECSManager_generateEntityID_def ECSManager_destroyEntity_def getID_def
        ECSManager_addComponent_def ComponentManager_addComponent_def
        ComponentManager_getComponentVector_def put_vector_def
        ECSManager_getComponent_def ComponentManager_getComponent_def
        ComponentVector_getComponent_def vector_at_def fun_eq_iff insert_commute)
qed

theorem C8_removeEntity_compacts_witness:
  "indexes \<lparr>indexes = [1 \<mapsto> 0, 2 \<mapsto> 1, 3 \<mapsto> 2], components = [10, 11, 12 :: nat],
            entities = {}, newEntities = {}\<rparr> 2 = Some 1
   \<and> unat (1 :: 32 word) < length [10, 11, 12 :: nat]
   \<and> snd (ComponentVector_removeEntity
        \<lparr>indexes = [1 \<mapsto> 0, 2 \<mapsto> 1, 3 \<mapsto> 2], components = [10, 11, 12 :: nat],
         entities = {}, newEntities = {}\<rparr> 2) = Inr ()
   \<and> components (fst (ComponentVector_removeEntity
        \<lparr>indexes = [1 \<mapsto> 0, 2 \<mapsto> 1, 3 \<mapsto> 2], components = [10, 11, 12 :: nat],
         entities = {}, newEntities = {}\<rparr> 2)) = [10, 12]
   \<and> indexes (fst (ComponentVector_removeEntity
        \<lparr>indexes = [1 \<mapsto> 0, 2 \<mapsto> 1, 3 \<mapsto> 2], components = [10, 11, 12 :: nat],
         entities = {}, newEntities = {}\<rparr> 2)) 3 = Some 1"
proof -
  let ?cv = "\<lparr>indexes = [1 \<mapsto> 0, 2 \<mapsto> 1, 3 \<mapsto> 2], components = [10, 11, 12 :: nat],
              entities = {}, newEntities = {}\<rparr>"
  have h: "indexes ?cv 2 = Some 1 \<and> unat (1 :: 32 word) < length (components ?cv)"
    by simp
  from C8_removeEntity_compacts [THEN conjunct1, rule_format, OF h]
  have "snd (ComponentVector_removeEntity ?cv 2) = Inr ()"
    and "components (fst (ComponentVector_removeEntity ?cv 2)) = [10, 12]"
    and "indexes (fst (ComponentVector_removeEntity ?cv 2)) 3 = Some 1"
    by simp_all
  then show ?thesis by simp
qed

theorem C8_counterexample:
  "indexes (fst (ComponentVector_getComponent (ComponentVector_new :: nat ComponentVector) 2)) 2
     = Some 0
   \<and> components (fst (ComponentVector_getComponent (ComponentVector_new :: nat ComponentVector) 2))
     = []
   \<and> snd (ComponentVector_removeEntity
        (fst (ComponentVector_getComponent (ComponentVector_new :: nat ComponentVector) 2)) 2)
     = Inl undefined_behaviour
   \<and> (case ComponentVector_removeEntity
             (fst (ComponentVector_getComponent
                (ComponentVector_addComponent (ComponentVector_new :: nat ComponentVector) 1 10)
                2)) 2 of
        (cv, r) \<Rightarrow>
          r = Inr () \<and> indexes cv 1 = Some 0 \<and> components cv = []
          \<and> snd (ComponentVector_removeEntity cv 1) = Inl undefined_behaviour)"
  by (simp add: run_defs ComponentVector_getComponent_def vector_at_def)

section \<open>Adding twice for one entity\<close>




section \<open>Components of the world itself\<close>

lemma getComponentVector_put_vector:
  "map_of cm k = Some cv0 \<Longrightarrow>
     ComponentManager_getComponentVector (put_vector cm k cv) k = (put_vector cm k cv, cv)"
  by (simp add: ComponentManager_getComponentVector_def map_of_put_vector)

lemma getComponent_after_addComponent:
  assumes "indexes cv entityID = None" and "length (components cv) < 2 ^ 32"
  shows "snd (ComponentVector_getComponent (ComponentVector_addComponent cv entityID v) entityID)
           = Inr v"
proof -
  have "unat (of_nat (length (components cv)) :: 32 word) = length (components cv)"
    using assms(2) by (simp add: unat_of_nat)
  then show ?thesis
    using assms(1)
    by (simp add: ComponentVector_getComponent_def ComponentVector_addComponent_def
        vector_at_def)
qed

text \<open>
  C7. The claim is that \<^verbatim>\<open>addComponent<T>(v)\<close> followed by \<^verbatim>\<open>getComponent<T>()\<close> returns
  \<open>v\<close>. It does when \<^verbatim>\<open>T\<close> derives from \<^verbatim>\<open>Component\<close> and the vector of \<^verbatim>\<open>T\<close>, if one
  is registered, does not have the world's own id as a key and has fewer than \<open>2^32\<close>
  rows (so that the row number fits an \<^verbatim>\<open>unsigned\<close>). When the world already has a
  component of the type, the first one is returned.
\<close>

theorem C7_self_component_roundtrip:
  assumes "is_base_of_Component T"
    and "case map_of (componentManager w) (typeid_name T) of
           None \<Rightarrow> True
         | Some cv \<Rightarrow> indexes cv (managerID w) = None \<and> length (components cv) < 2 ^ 32"
  shows "snd (ECSManager_getComponent_self (ECSManager_addComponent_self w T v) T) = Inr v"
proof -
  let ?key = "typeid_name T"
  obtain cm1 cv where gv: "ComponentManager_getComponentVector (componentManager w) ?key = (cm1, cv)"
    by (cases "ComponentManager_getComponentVector (componentManager w) ?key")
  have reg: "map_of cm1 ?key = Some cv"
    using gv by (auto simp: ComponentManager_getComponentVector_def map_of_insort_key_fst
        split: option.splits)
  have pre: "indexes cv (managerID w) = None \<and> length (components cv) < 2 ^ 32"
    using gv assms(2)
    by (auto simp: ComponentManager_getComponentVector_def ComponentVector_new_def
        split: option.splits)
  let ?cv' = "ComponentVector_addComponent cv (managerID w) v"
  have add: "ECSManager_addComponent_self w T v
               = w\<lparr>componentManager := put_vector cm1 ?key ?cv'\<rparr>"
    using assms(1) gv
    by (simp add: ECSManager_addComponent_self_def ECSManager_addComponent_def
        ComponentManager_addComponent_def)
  have "snd (ComponentVector_getComponent ?cv' (managerID w)) = Inr v"
    using pre by (simp add: getComponent_after_addComponent)
  then show ?thesis
    unfolding add
    by (auto simp: ECSManager_getComponent_self_def ECSManager_getComponent_def
        ComponentManager_getComponent_def getComponentVector_put_vector [OF reg]
        split: prod.splits)
qed

theorem C7_self_component_roundtrip_witness:
  "is_base_of_Component (TParam 100 True)
   \<and> map_of (componentManager (ECSManager_new :: nat ECSManager))
        (typeid_name (TParam 100 True)) = None
   \<and> snd (ECSManager_getComponent_self
        (ECSManager_addComponent_self (ECSManager_new :: nat ECSManager) (TParam 100 True) 42)
        (TParam 100 True)) = Inr 42
   \<and> map_of (componentManager
          (ECSManager_addComponent (ECSManager_new :: nat ECSManager) (TParam 100 True) 5 7))
        (typeid_name (TParam 100 True))
       = Some \<lparr>indexes = [5 \<mapsto> 0], components = [7], entities = {}, newEntities = {5}\<rparr>
   \<and> snd (ECSManager_getComponent_self
        (ECSManager_addComponent_self
           (ECSManager_addComponent (ECSManager_new :: nat ECSManager) (TParam 100 True) 5 7)
           (TParam 100 True) 42)
        (TParam 100 True)) = Inr 42"
proof -
  let ?T = "TParam 100 True"
  let ?w = "ECSManager_new :: nat ECSManager"
  let ?w5 = "ECSManager_addComponent ?w ?T 5 7"
  have h1: "is_base_of_Component ?T" by simp
  have n: "map_of (componentManager ?w) (typeid_name ?T) = None"
    by (simp add: ECSManager_new_def ECSManager_createEntity_def
        ECSManager_generateEntityID_def)
  have h2: "case map_of (componentManager ?w) (typeid_name ?T) of
              None \<Rightarrow> True
            | Some cv \<Rightarrow> indexes cv (managerID ?w) = None
                \<and> length (components cv) < 2 ^ 32"
    by (simp add: ECSManager_new_def ECSManager_createEntity_def
        ECSManager_generateEntityID_def)
  have m: "map_of (componentManager ?w5) (typeid_name ?T)
       = Some \<lparr>indexes = [5 \<mapsto> 0], components = [7], entities = {}, newEntities = {5}\<rparr>"
    and s: "managerID ?w5 = 0"
    by (simp_all add: run_defs ECSManager_new_def ECSManager_createEntity_def
        ECSManager_generateEntityID_def getID_def ECSManager_addComponent_def
        ComponentManager_addComponent_def ComponentManager_getComponentVector_def
        put_vector_def)
  have h3: "case map_of (componentManager ?w5) (typeid_name ?T) of
              None \<Rightarrow> True
            | Some cv \<Rightarrow> indexes cv (managerID ?w5) = None
                \<and> length (components cv) < 2 ^ 32"
    unfolding m s by simp
  show ?thesis
    using h1 n m C7_self_component_roundtrip [OF h1 h2, of 42]
      C7_self_component_roundtrip [OF h1 h3, of 42]
    by simp
qed

theorem C7_counterexample:
  "snd (ECSManager_getComponent_self
     (ECSManager_addComponent_self
        (ECSManager_addComponent_self (ECSManager_new :: nat ECSManager) (TParam 100 True) 1)
        (TParam 100 True) 2)
     (TParam 100 True)) = Inr 1
   \<and> snd (ECSManager_getComponent_self
     (ECSManager_addComponent_self
        (ECSManager_addComponent_self (ECSManager_new :: nat ECSManager) (TParam 100 True) 1)
        (TParam 100 True) 2)
     (TParam 100 True)) \<noteq> Inr 2"
  by (simp add: run_defs ECSManager_new_def ECSManager_createEntity_def
        ECSManager_generateEntityID_def getID_def ECSManager_addComponent_self_def
        ECSManager_addComponent_def ComponentManager_addComponent_def
        ComponentManager_getComponentVector_def put_vector_def
        ECSManager_getComponent_self_def
        ECSManager_getComponent_def ComponentManager_getComponent_def
        ComponentVector_getComponent_def vector_at_def)

end
